theory Spec2Isabelle
  imports Main "HOL-Library.Word" "HOL-Library.Sublist"
begin

section \<open>Python values used by the backend\<close>

text \<open>
  A Python \<open>str\<close> is a sequence of Unicode code points, and \<open>len\<close>, slicing and
  \<open>strip\<close> count code points. A string is therefore modelled as the list of its code
  points; \<open>u\<close> turns a literal into that list. \<open>None\<close> where a string is expected
  is the \<open>None\<close> of \<open>pystr option\<close>.
\<close>

type_synonym pystr = "nat list"

abbreviation u :: "string \<Rightarrow> pystr" where
  "u s \<equiv> map of_char s"

text \<open>\<open>s.startswith(p)\<close>.\<close>

definition startswith :: "pystr \<Rightarrow> pystr \<Rightarrow> bool" where
  "startswith p s = (take (length p) s = p)"

text \<open>
  \<open>str.isspace\<close> for one code point: the characters of bidirectional class WS, B or S
  and of category Zs, as CPython's \<open>_PyUnicode_IsWhitespace\<close> lists them.
\<close>

definition py_isspace :: "nat \<Rightarrow> bool" where
  "py_isspace c =
     ((0x09 \<le> c \<and> c \<le> 0x0D) \<or> (0x1C \<le> c \<and> c \<le> 0x20) \<or> c = 0x85 \<or> c = 0xA0
      \<or> c = 0x1680 \<or> (0x2000 \<le> c \<and> c \<le> 0x200A) \<or> c = 0x2028 \<or> c = 0x2029
      \<or> c = 0x202F \<or> c = 0x205F \<or> c = 0x3000)"

text \<open>\<open>s.strip()\<close>: leading and trailing whitespace removed.\<close>

definition py_strip :: "pystr \<Rightarrow> pystr" where
  "py_strip s = rev (dropWhile py_isspace (rev (dropWhile py_isspace s)))"

text \<open>\<open>str(n)\<close> for an \<open>int\<close>: decimal digits, with a minus sign below zero.\<close>

fun str_nat :: "nat \<Rightarrow> pystr" where
  "str_nat n = (if n < 10 then [48 + n] else str_nat (n div 10) @ [48 + n mod 10])"

definition str_int :: "int \<Rightarrow> pystr" where
  "str_int i = (if i < 0 then 45 # str_nat (nat (- i)) else str_nat (nat i))"

text \<open>\<open>str(b)\<close> for a \<open>bool\<close>.\<close>

definition str_bool :: "bool \<Rightarrow> pystr" where
  "str_bool b = (if b then u ''True'' else u ''False'')"

text \<open>
  \<open>repr(s)\<close> for a \<open>str\<close>, after CPython's \<open>unicode_repr\<close>: single quotes unless
  the string holds a single quote and no double quote; the quote and the backslash are
  escaped, tab, newline and carriage return are written \<open>\t\<close>, \<open>\n\<close>, \<open>\r\<close>, the
  other ASCII control characters and the non-printable characters as hexadecimal
  escapes. Whether a code point above ASCII is printable is a table of the Unicode
  database; it is the parameter \<open>printable\<close>.
\<close>

definition hexdigit :: "nat \<Rightarrow> nat" where
  "hexdigit d = (if d < 10 then 48 + d else 87 + d)"

fun hexdigits :: "nat \<Rightarrow> nat \<Rightarrow> pystr" where
  "hexdigits 0 c = []"
| "hexdigits (Suc k) c = hexdigits k (c div 16) @ [hexdigit (c mod 16)]"

definition repr_char :: "(nat \<Rightarrow> bool) \<Rightarrow> nat \<Rightarrow> nat \<Rightarrow> pystr" where
  "repr_char printable quote c =
     (if c = quote \<or> c = 92 then [92, c]
      else if c = 9 then [92, 116]
      else if c = 10 then [92, 110]
      else if c = 13 then [92, 114]
      else if c < 32 \<or> c = 0x7F then [92, 120] @ hexdigits 2 c
      else if c < 0x7F then [c]
      else if printable c then [c]
      else if c \<le> 0xFF then [92, 120] @ hexdigits 2 c
      else if c \<le> 0xFFFF then [92, 117] @ hexdigits 4 c
      else [92, 85] @ hexdigits 8 c)"

definition repr_str :: "(nat \<Rightarrow> bool) \<Rightarrow> pystr \<Rightarrow> pystr" where
  "repr_str printable s =
     (let quote = (if 39 \<in> set s \<and> 34 \<notin> set s then 34 else 39)
      in [quote] @ concat (map (repr_char printable quote) s) @ [quote])"

text \<open>\<open>", ".join(xs)\<close> and \<open>str(xs)\<close> for a list whose items are already rendered.\<close>

fun join_comma :: "pystr list \<Rightarrow> pystr" where
  "join_comma [] = []"
| "join_comma [x] = x"
| "join_comma (x # y # ys) = x @ u '', '' @ join_comma (y # ys)"

definition str_list :: "pystr list \<Rightarrow> pystr" where
  "str_list items = u ''['' @ join_comma items @ u '']''"

subsection \<open>The values \<open>json.loads\<close> returns\<close>

text \<open>
  A float read from JSON is kept as the decimal numeral handed to \<open>float()\<close>: sign,
  digits and power of ten. Python rounds it to the nearest binary64; the rounding is
  not modelled beyond the one question the backend asks of a float, whether it is
  zero. \<open>NaN\<close>, \<open>Infinity\<close> and \<open>-Infinity\<close> are accepted by \<open>json.loads\<close>.
\<close>

datatype pyfloat = Decimal bool nat int | NaN | Infinity bool

datatype pyval =
    PyNone
  | PyBool bool
  | PyInt int
  | PyFloat pyfloat
  | PyStr pystr
  | PyList "pyval list"
  | PyDict "(pystr \<times> pyval) list"

text \<open>
  \<open>m \<times> 10^e\<close> rounds to zero exactly when it is at most \<open>2^-1075\<close>, half the
  smallest subnormal (a tie goes to the even neighbour, zero).
\<close>

definition rounds_to_zero :: "nat \<Rightarrow> int \<Rightarrow> bool" where
  "rounds_to_zero m e = (if 0 \<le> e then m = 0 else m * 2 ^ 1075 \<le> 10 ^ nat (- e))"

text \<open>\<open>bool(v)\<close>, the test of \<open>if result:\<close>.\<close>

fun truthy :: "pyval \<Rightarrow> bool" where
  "truthy PyNone = False"
| "truthy (PyBool b) = b"
| "truthy (PyInt i) = (i \<noteq> 0)"
| "truthy (PyFloat (Decimal s m e)) = (\<not> rounds_to_zero m e)"
| "truthy (PyFloat NaN) = True"
| "truthy (PyFloat (Infinity s)) = True"
| "truthy (PyStr s) = (s \<noteq> [])"
| "truthy (PyList xs) = (xs \<noteq> [])"
| "truthy (PyDict kvs) = (kvs \<noteq> [])"

text \<open>\<open>d[k] = v\<close> on a dict kept in insertion order: a present key keeps its place.\<close>

fun dict_set :: "(pystr \<times> pyval) list \<Rightarrow> pystr \<Rightarrow> pyval \<Rightarrow> (pystr \<times> pyval) list" where
  "dict_set [] k v = [(k, v)]"
| "dict_set ((k', v') # kvs) k v =
     (if k' = k then (k', v) # kvs else (k', v') # dict_set kvs k v)"

section \<open>The standard library's JSON decoder\<close>

text \<open>
  \<open>json.loads\<close> is the standard library's; it is modelled after CPython's scanner
  (\<open>Modules/_json.c\<close>, the one \<open>json\<close> uses). A scan returns the value and the text
  left after it; \<open>None\<close> stands for the \<open>JSONDecodeError\<close> the decoder raises.
  Limits of the interpreter (recursion depth, the length of an integer numeral, memory)
  are outside the model.
\<close>

definition is_json_ws :: "nat \<Rightarrow> bool" where
  "is_json_ws c = (c = 32 \<or> c = 9 \<or> c = 10 \<or> c = 13)"

definition skip_ws :: "pystr \<Rightarrow> pystr" where
  "skip_ws s = dropWhile is_json_ws s"

definition is_digit :: "nat \<Rightarrow> bool" where
  "is_digit c = (48 \<le> c \<and> c \<le> 57)"

definition nat_of_digits :: "pystr \<Rightarrow> nat" where
  "nat_of_digits ds = foldl (\<lambda>a d. 10 * a + (d - 48)) 0 ds"

definition hex_val :: "nat \<Rightarrow> nat option" where
  "hex_val c =
     (if 48 \<le> c \<and> c \<le> 57 then Some (c - 48)
      else if 97 \<le> c \<and> c \<le> 102 then Some (c - 87)
      else if 65 \<le> c \<and> c \<le> 70 then Some (c - 55)
      else None)"

text \<open>The four hexadecimal digits of a \<open>\uXXXX\<close> escape.\<close>

definition decode_uXXXX :: "pystr \<Rightarrow> nat option" where
  "decode_uXXXX s =
     (case map hex_val (take 4 s) of
        [Some a, Some b, Some c, Some d] \<Rightarrow> Some (((a * 16 + b) * 16 + c) * 16 + d)
      | _ \<Rightarrow> None)"

text \<open>The one-letter escapes: quote, backslash, slash, b, f, n, r, t.\<close>

definition backslash :: "nat \<Rightarrow> nat option" where
  "backslash e =
     (if e = 34 \<or> e = 92 \<or> e = 47 then Some e
      else if e = 98 then Some 8
      else if e = 102 then Some 12
      else if e = 110 then Some 10
      else if e = 114 then Some 13
      else if e = 116 then Some 9
      else None)"

definition cons_char :: "nat \<Rightarrow> (pystr \<times> pystr) option \<Rightarrow> (pystr \<times> pystr) option" where
  "cons_char c r = map_option (\<lambda>(s, rest). (c # s, rest)) r"

text \<open>
  \<open>scanstring\<close>, strict: the text after the opening quote, up to the closing one.
  A control character, an unknown escape and a missing closing quote are errors; a high
  surrogate escape followed by a low one is joined into one code point.
\<close>

function scanstring :: "pystr \<Rightarrow> (pystr \<times> pystr) option" where
  "scanstring [] = None"
| "scanstring (c # cs) =
     (if c = 34 then Some ([], cs)
      else if c = 92 then
        (case cs of
           [] \<Rightarrow> None
         | e # r \<Rightarrow>
             if e = 117 then
               (case decode_uXXXX r of
                  None \<Rightarrow> None
                | Some uni \<Rightarrow>
                    if 0xD800 \<le> uni \<and> uni \<le> 0xDBFF \<and> startswith [92, 117] (drop 4 r) then
                      (case decode_uXXXX (drop 6 r) of
                         None \<Rightarrow> None
                       | Some uni2 \<Rightarrow>
                           if 0xDC00 \<le> uni2 \<and> uni2 \<le> 0xDFFF
                           then cons_char (0x10000 + ((uni - 0xD800) * 1024 + (uni2 - 0xDC00)))
                                  (scanstring (drop 10 r))
                           else cons_char uni (scanstring (drop 4 r)))
                    else cons_char uni (scanstring (drop 4 r)))
             else
               (case backslash e of
                  None \<Rightarrow> None
                | Some ch \<Rightarrow> cons_char ch (scanstring r)))
      else if c < 32 then None
      else cons_char c (scanstring cs))"
  by pat_completeness auto
termination
  by (relation "measure length") auto

text \<open>
  A number: an optional minus, \<open>0\<close> or a digit string without leading zero, an
  optional fraction, an optional exponent. Without fraction and exponent it is an
  \<open>int\<close>, otherwise a float.
\<close>

definition match_number :: "pystr \<Rightarrow> (pyval \<times> pystr) option" where
  "match_number s =
     (let neg = startswith [45] s;
          s0 = (if neg then drop 1 s else s)
      in case s0 of
           [] \<Rightarrow> None
         | d # r \<Rightarrow>
             if \<not> is_digit d then None
             else
               let ipart = (if d = 48 then [d] else d # takeWhile is_digit r);
                   s1 = (if d = 48 then r else dropWhile is_digit r);
                   has_frac = (startswith [46] s1 \<and> (case drop 1 s1 of [] \<Rightarrow> False | f # _ \<Rightarrow> is_digit f));
                   fpart = (if has_frac then takeWhile is_digit (drop 1 s1) else []);
                   s2 = (if has_frac then dropWhile is_digit (drop 1 s1) else s1);
                   has_e = (startswith [101] s2 \<or> startswith [69] s2);
                   eneg = (has_e \<and> startswith [45] (drop 1 s2));
                   s3 = (if has_e \<and> (startswith [45] (drop 1 s2) \<or> startswith [43] (drop 1 s2))
                         then drop 2 s2 else drop 1 s2);
                   epart = (if has_e then takeWhile is_digit s3 else []);
                   has_exp = (epart \<noteq> []);
                   rest = (if has_exp then dropWhile is_digit s3 else s2)
               in if has_frac \<or> has_exp
                  then Some (PyFloat (Decimal neg (nat_of_digits (ipart @ fpart))
                               ((if eneg then - int (nat_of_digits epart) else int (nat_of_digits epart))
                                - int (length fpart))), rest)
                  else Some (PyInt (if neg then - int (nat_of_digits ipart) else int (nat_of_digits ipart)), rest))"

text \<open>
  \<open>scan_once\<close> reads one value; \<open>array_items\<close> and \<open>object_items\<close> are the loops of
  the array and object parsers, entered after the opening bracket when the container is
  not empty. Each loop goes round again on the text left by the value it has just
  read, which is shorter than the text it started on; the comparison of the two lengths
  is what lets the definition be accepted.
\<close>

function scan_once :: "pystr \<Rightarrow> (pyval \<times> pystr) option"
  and array_items :: "pyval list \<Rightarrow> pystr \<Rightarrow> (pyval \<times> pystr) option"
  and object_items :: "(pystr \<times> pyval) list \<Rightarrow> pystr \<Rightarrow> (pyval \<times> pystr) option"
where
  "scan_once s =
     (case s of
        [] \<Rightarrow> None
      | c # rest \<Rightarrow>
          if c = 34 then map_option (\<lambda>(v, r). (PyStr v, r)) (scanstring rest)
          else if c = 123 then
            (if startswith [125] (skip_ws rest) then Some (PyDict [], drop 1 (skip_ws rest))
             else object_items [] (skip_ws rest))
          else if c = 91 then
            (if startswith [93] (skip_ws rest) then Some (PyList [], drop 1 (skip_ws rest))
             else array_items [] (skip_ws rest))
          else if startswith (u ''null'') s then Some (PyNone, drop 4 s)
          else if startswith (u ''true'') s then Some (PyBool True, drop 4 s)
          else if startswith (u ''false'') s then Some (PyBool False, drop 5 s)
          else if startswith (u ''NaN'') s then Some (PyFloat NaN, drop 3 s)
          else if startswith (u ''Infinity'') s then Some (PyFloat (Infinity False), drop 8 s)
          else if startswith (u ''-Infinity'') s then Some (PyFloat (Infinity True), drop 9 s)
          else match_number s)"
| "array_items acc s =
     (case scan_once s of
        None \<Rightarrow> None
      | Some (v, r) \<Rightarrow>
          if startswith [93] (skip_ws r) then Some (PyList (acc @ [v]), drop 1 (skip_ws r))
          else if startswith [44] (skip_ws r) then
            (if length (skip_ws (drop 1 (skip_ws r))) < length s
             then array_items (acc @ [v]) (skip_ws (drop 1 (skip_ws r)))
             else None)
          else None)"
| "object_items acc s =
     (if \<not> startswith [34] s then None
      else
        case scanstring (drop 1 s) of
          None \<Rightarrow> None
        | Some (key, r) \<Rightarrow>
            if \<not> startswith [58] (skip_ws r) then None
            else if \<not> length (skip_ws (drop 1 (skip_ws r))) < length s then None
            else
              case scan_once (skip_ws (drop 1 (skip_ws r))) of
                None \<Rightarrow> None
              | Some (v, r') \<Rightarrow>
                  if startswith [125] (skip_ws r')
                  then Some (PyDict (dict_set acc key v), drop 1 (skip_ws r'))
                  else if startswith [44] (skip_ws r') then
                    (if length (skip_ws (drop 1 (skip_ws r'))) < length s
                     then object_items (dict_set acc key v) (skip_ws (drop 1 (skip_ws r')))
                     else None)
                  else None)"
  by pat_completeness auto
termination
  by (relation "measure (\<lambda>x. case x of
          Inl s \<Rightarrow> 2 * length s
        | Inr (Inl (acc, s)) \<Rightarrow> 2 * length s + 1
        | Inr (Inr (acc, s)) \<Rightarrow> 2 * length s + 1)")
     (auto simp: skip_ws_def length_dropWhile_le less_Suc_eq_le)

text \<open>
  \<open>json.loads(s)\<close>: a leading byte-order mark is refused, whitespace may surround the
  one value, and nothing else may follow it.
\<close>

definition json_loads :: "pystr \<Rightarrow> pyval option" where
  "json_loads s =
     (if startswith [0xFEFF] s then None
      else case scan_once (skip_ws s) of
             None \<Rightarrow> None
           | Some (v, r) \<Rightarrow> if skip_ws r = [] then Some v else None)"

section \<open>The regular expression of \<open>safe_json_parse\<close>\<close>

text \<open>
  \<open>re.sub(r"```json\n?|```", "", text)\<close>: the text is read from the left; where a
  match starts it is dropped and the reading goes on after it. At a position the first
  alternative is tried first, three backticks and \<open>json\<close>, with the newline after it
  if there is one; then the second, three backticks alone.
\<close>

function fence_sub :: "pystr \<Rightarrow> pystr" where
  "fence_sub [] = []"
| "fence_sub (c # cs) =
     (if startswith (u ''```json\<newline>'') (c # cs) then fence_sub (drop 8 (c # cs))
      else if startswith (u ''```json'') (c # cs) then fence_sub (drop 7 (c # cs))
      else if startswith (u ''```'') (c # cs) then fence_sub (drop 3 (c # cs))
      else c # fence_sub cs)"
  by pat_completeness auto
termination
  by (relation "measure length") auto

section \<open>\<open>models.py\<close>\<close>

text \<open>
  The request models. A Python \<open>float\<close> field is the 64 bits of its binary64 value;
  no operation of the backend computes with one.
\<close>

type_synonym float64 = "64 word"

record ChecklistModel =
  door :: bool
  water :: bool
  clean :: bool
  toilet :: bool

record VisionRequest =
  base64_image :: pystr
  checklist :: ChecklistModel

record SubmissionModel =
  id_sub :: pystr
  facilityId :: pystr
  submitterType :: pystr
  score :: int
  checklist :: ChecklistModel
  features :: "pystr list"
  discrepancies :: "pystr list"

record CollusionRequest =
  submissions :: "SubmissionModel list"

record HealthNarrativeRequest =
  village_name :: pystr
  population :: int
  avg_score :: float64
  cases_prevented :: int

record InvestorSignalRequest =
  village_name :: pystr
  history :: "float64 list"
  avg :: float64
  std_dev :: float64

section \<open>The world around the backend\<close>

text \<open>
  The exceptions that can leave an operation: the built-in ones the code raises or
  runs into, and \<open>GroqError\<close> for whatever the provider's client raises, with its
  message.
\<close>

datatype exn =
    ValueError pystr
  | TypeError pystr
  | IndexError pystr
  | GroqError pystr

text \<open>\<open>str(e)\<close>.\<close>

fun str_exn :: "exn \<Rightarrow> pystr" where
  "str_exn (ValueError m) = m"
| "str_exn (TypeError m) = m"
| "str_exn (IndexError m) = m"
| "str_exn (GroqError m) = m"

text \<open>
  One chat-completion call: the model, the sampling temperature and the messages. The
  content of a message is a text or a list of parts. Of the response only
  \<open>choices[i].message.content\<close> is read, so a response is the list of its choices'
  contents, each a string or \<open>None\<close>.
\<close>

datatype part = ImageUrl pystr | TextPart pystr

datatype content = Text pystr | Parts "part list"

record message =
  role :: pystr
  content :: content

record ChatRequest =
  model :: pystr
  temperature :: float64
  messages :: "message list"

record ChatCompletion =
  choices :: "pystr option list"

datatype Groq = Groq pystr

text \<open>
  The world: the environment variable \<open>GROQ_API_KEY\<close> as \<open>os.getenv\<close> returns it, the
  provider (what a call made with a given key returns or raises), the outbound calls
  made so far, and two tables of the interpreter that the prompts are rendered with:
  which code points above ASCII \<open>repr\<close> prints as they are, and \<open>repr\<close> of a float.
  Logging is not modelled.
\<close>

record world =
  GROQ_API_KEY :: "pystr option"
  provider :: "pystr \<Rightarrow> ChatRequest \<Rightarrow> exn + ChatCompletion"
  calls :: "(pystr \<times> ChatRequest) list"
  printable :: "nat \<Rightarrow> bool"
  float_repr :: "float64 \<Rightarrow> pystr"

text \<open>\<open>client.chat.completions.create(...)\<close>: the call is made, then answered.\<close>

definition create :: "Groq \<Rightarrow> ChatRequest \<Rightarrow> world \<Rightarrow> (exn + ChatCompletion) \<times> world" where
  "create client rq w =
     (case client of Groq key \<Rightarrow> (provider w key rq, w\<lparr>calls := calls w @ [(key, rq)]\<rparr>))"

text \<open>\<open>response.choices[0].message.content\<close>; an empty list of choices raises.\<close>

definition first_content :: "ChatCompletion \<Rightarrow> exn + pystr option" where
  "first_content response =
     (case choices response of
        [] \<Rightarrow> Inl (IndexError (u ''list index out of range''))
      | c # _ \<Rightarrow> Inr c)"

text \<open>\<open>text[:n]\<close>, which raises when \<open>text\<close> is \<open>None\<close>.\<close>

definition slice_to :: "nat \<Rightarrow> pystr option \<Rightarrow> exn + pystr" where
  "slice_to n text =
     (case text of
        None \<Rightarrow> Inl (TypeError ([39] @ u ''NoneType'' @ [39] @ u '' object is not subscriptable''))
      | Some t \<Rightarrow> Inr (take n t))"

section \<open>\<open>groq_service.py\<close>\<close>

definition VISION_MODEL :: pystr where
  "VISION_MODEL = u ''meta-llama/llama-4-scout-17b-16e-instruct''"

definition TEXT_MODEL :: pystr where
  "TEXT_MODEL = u ''meta-llama/llama-4-scout-17b-16e-instruct''"

definition SANSURE_SYSTEM_INSTRUCTION :: pystr where
  \<open>SANSURE_SYSTEM_INSTRUCTION =
     u ''\<newline>''
     @ u ''You are SanSure's core AI engine ''
     @ [8212]
     @ u '' an intelligence layer powering a rural sanitation\<newline>''
     @ u ''trust-rating platform aligned with SDG 6.2. You operate across four distinct modes\<newline>''
     @ u ''depending on the task passed to you. Always detect which mode applies from the ''
     @ u ''request\<newline>''
     @ u ''structure and respond accordingly.\<newline>''
     @ u ''\<newline>''
     @ u ''MODE 1 ''
     @ [8212]
     @ u '' VISION HYGIENE SCORER\<newline>''
     @ u ''Triggered when a toilet facility image is provided alongside a 4-item checklist.\<newline>''
     @ u ''Respond ONLY in this JSON:\<newline>''
     @ u ''{"hygiene_score": 0-100, "confidence": "high|medium|low", "visual_verification":\<newline>''
     @ u ''{"door": "confirmed|contradicted|unclear", "water": "confirmed|contradicted|unclear",\<newline>''
     @ u ''"clean": "confirmed|contradicted|unclear", "toilet": "confirmed|contradicted|unclear"},\<newline>''
     @ u ''"detected_features": [], "discrepancies": [], "recommendation": "",\<newline>''
     @ u ''"spoofing_risk": "low|medium|high", "spoofing_reasoning": ""}\<newline>''
     @ u ''\<newline>''
     @ u ''MODE 2 ''
     @ [8212]
     @ u '' COLLUSION ADJUDICATOR\<newline>''
     @ u ''Triggered when three independent submission summaries are provided for the same ''
     @ u ''facility.\<newline>''
     @ u ''Respond ONLY in this JSON:\<newline>''
     @ u ''{"consensus_score": 0-100, "score_variance": 0-100, "collusion_risk": "low|medium|high",\<newline>''
     @ u ''"collusion_indicators": [], "independence_confirmed": true|false, "reasoning": ''
     @ u ''"",\<newline>''
     @ u ''"recommendation": "mint_token|hold_pending_review|reject_flag_escalate",\<newline>''
     @ u ''"confidence": "high|medium|low"}\<newline>''
     @ u ''\<newline>''
     @ u ''MODE 3 ''
     @ [8212]
     @ u '' HEALTH MIRROR NARRATOR\<newline>''
     @ u ''Triggered when village demographics and cases_prevented are provided.\<newline>''
     @ u ''Respond with ONE warm plain-language paragraph only ''
     @ [8212]
     @ u '' no JSON, no headers.\<newline>''
     @ u ''Tone: a respected elder at a village meeting. Never use: data, score, metric, percentage, ''
     @ u ''coefficient.\<newline>''
     @ u ''\<newline>''
     @ u ''MODE 4 ''
     @ [8212]
     @ u '' INVESTOR SIGNAL GENERATOR\<newline>''
     @ u ''Triggered when a 90-day score history array is provided.\<newline>''
     @ u ''Respond ONLY in this JSON:\<newline>''
     @ u ''{"credit_price_inr": 80-500, "volatility_index": 0-100,\<newline>''
     @ u ''"risk_rating": "AAA|AA|A|BBB|BB|B|CCC|D",\<newline>''
     @ u ''"trend": "strongly_improving|improving|stable|declining|strongly_declining",\<newline>''
     @ u ''"investment_signal": "max 15 words", "disbursement_ready": true|false,\<newline>''
     @ u ''"30_day_forecast": "improving|stable|at_risk"}\<newline>''
     @ u ''\<newline>''
     @ u ''GLOBAL RULES: Never wrap JSON in markdown fences. Never fabricate visual features.\<newline>''
     @ u ''Collusion false negatives are more damaging than false positives ''
     @ [8212]
     @ u '' be ruthlessly honest.\<newline>''
     @ u ''CLEANLINESS RULE: Judge cleanliness based on the toilet bowl, seat, and surrounding ''
     @ u ''surfaces ''
     @ [8212]
     @ u '' not the floor. Floor tile colour, grout lines, or patterns are irrelevant to the ''
     @ u ''cleanliness score. Only visible waste, faeces, heavy staining on the toilet itself, ''
     @ u ''or clear evidence of neglect should lower the score.\<newline>''\<close>

definition get_client :: "world \<Rightarrow> exn + Groq" where
  "get_client w =
     (case GROQ_API_KEY w of
        None \<Rightarrow> Inl (ValueError (u ''GROQ_API_KEY not set in backend/.env''))
      | Some api_key \<Rightarrow>
          if api_key = [] \<or> api_key = u ''PLACEHOLDER_API_KEY''
          then Inl (ValueError (u ''GROQ_API_KEY not set in backend/.env''))
          else Inr (Groq api_key))"

text \<open>
  \<open>safe_json_parse\<close> returns a Python value: what \<open>json.loads\<close> made of the cleaned
  text, or \<open>None\<close> for a missing or empty text and for a \<open>JSONDecodeError\<close>.
\<close>

definition safe_json_parse :: "pystr option \<Rightarrow> pyval" where
  "safe_json_parse text =
     (case text of
        None \<Rightarrow> PyNone
      | Some t \<Rightarrow>
          if t = [] then PyNone
          else (let cleaned = py_strip (fence_sub t)
                in case json_loads cleaned of
                     Some v \<Rightarrow> v
                   | None \<Rightarrow> PyNone))"

subsection \<open>Mode 1: vision hygiene scorer\<close>

definition vision_prompt :: "VisionRequest \<Rightarrow> pystr" where
  \<open>vision_prompt req =
     (let cl = VisionRequest.checklist req
      in u ''You are SanSure's hygiene scoring engine. Analyze this toilet facility photo across ''
        @ u ''four dimensions:\<newline>''
        @ u ''\<newline>''
        @ u ''1. STRUCTURAL INTEGRITY (door present, walls intact, roof functional)\<newline>''
        @ u ''2. WATER AVAILABILITY (water source visible, container present)\<newline>''
        @ u ''3. CLEANLINESS (focus on the toilet bowl, seat, and immediate surfaces ''
        @ [8212]
        @ u '' is there visible waste, heavy staining, or clear evidence of neglect? Floor appearance ''
        @ u ''is irrelevant to this score)\<newline>''
        @ u ''4. TOILET VISIBILITY (is the toilet unit itself clearly visible and present in ''
        @ u ''the image?)\<newline>''
        @ u ''\<newline>''
        @ u ''User provided checklist:\<newline>''
        @ u ''- Door present: ''
        @ str_bool (door cl)
        @ u ''\<newline>''
        @ u ''- Water available: ''
        @ str_bool (water cl)
        @ u ''\<newline>''
        @ u ''- Clean floor: ''
        @ str_bool (clean cl)
        @ u ''\<newline>''
        @ u ''- Toilet clearly visible: ''
        @ str_bool (toilet cl)
        @ u ''\<newline>''
        @ u ''\<newline>''
        @ u ''Return ONLY valid JSON (no markdown fences):\<newline>''
        @ u ''{\<newline>''
        @ u ''  "hygiene_score": 0-100,\<newline>''
        @ u ''  "confidence": "high|medium|low",\<newline>''
        @ u ''  "visual_verification": {\<newline>''
        @ u ''    "door": "confirmed|contradicted|unclear",\<newline>''
        @ u ''    "water": "confirmed|contradicted|unclear",\<newline>''
        @ u ''    "clean": "confirmed|contradicted|unclear",\<newline>''
        @ u ''    "toilet": "confirmed|contradicted|unclear"\<newline>''
        @ u ''  },\<newline>''
        @ u ''  "detected_features": ["feature1"],\<newline>''
        @ u ''  "discrepancies": ["discrepancy if any"],\<newline>''
        @ u ''  "recommendation": "brief assessment",\<newline>''
        @ u ''  "spoofing_risk": "low|medium|high",\<newline>''
        @ u ''  "spoofing_reasoning": "reasoning"\<newline>''
        @ u ''}'')\<close>

definition run_vision_analysis :: "world \<Rightarrow> VisionRequest \<Rightarrow> (exn + pyval) \<times> world" where
  "run_vision_analysis w req =
     (let prompt = vision_prompt req
      in case get_client w of
           Inl e \<Rightarrow> (Inl e, w)
         | Inr client \<Rightarrow>
             (case create client
                     \<lparr>model = VISION_MODEL,
                      temperature = 0x3FB999999999999A,
                      messages =
                        [\<lparr>role = u ''system'', content = Text SANSURE_SYSTEM_INSTRUCTION\<rparr>,
                         \<lparr>role = u ''user'',
                          content = Parts [ImageUrl (u ''data:image/jpeg;base64,'' @ base64_image req),
                                           TextPart prompt]\<rparr>]\<rparr> w of
                (Inl e, w') \<Rightarrow> (Inl e, w')
              | (Inr response, w') \<Rightarrow>
                  (case first_content response of
                     Inl e \<Rightarrow> (Inl e, w')
                   | Inr text \<Rightarrow>
                       let result = safe_json_parse text
                       in if truthy result then (Inr result, w')
                          else (case slice_to 300 text of
                                  Inl e \<Rightarrow> (Inl e, w')
                                | Inr snippet \<Rightarrow>
                                    (Inl (ValueError (u ''Could not parse vision response: '' @ snippet)), w')))))"

subsection \<open>Mode 2: collusion adjudicator\<close>

text \<open>\<open>str(s.checklist.model_dump())\<close>: the dict of the four fields, in their order.\<close>

definition str_model_dump :: "ChecklistModel \<Rightarrow> pystr" where
  "str_model_dump cl =
     u ''{'' @ [39] @ u ''door'' @ [39] @ u '': '' @ str_bool (door cl)
     @ u '', '' @ [39] @ u ''water'' @ [39] @ u '': '' @ str_bool (water cl)
     @ u '', '' @ [39] @ u ''clean'' @ [39] @ u '': '' @ str_bool (clean cl)
     @ u '', '' @ [39] @ u ''toilet'' @ [39] @ u '': '' @ str_bool (toilet cl) @ u ''}''"

definition fmt :: "(nat \<Rightarrow> bool) \<Rightarrow> SubmissionModel \<Rightarrow> pystr" where
  "fmt pr s =
     u ''Score: '' @ str_int (score s) @ u ''\<newline>''
     @ u ''Checklist: '' @ str_model_dump (SubmissionModel.checklist s) @ u ''\<newline>''
     @ u ''Features: '' @ str_list (map (repr_str pr) (features s))"

definition collusion_prompt :: "(nat \<Rightarrow> bool) \<Rightarrow> CollusionRequest \<Rightarrow> pystr" where
  \<open>collusion_prompt pr req =
     (let subs = submissions req;
          facility_id = (case subs of [] \<Rightarrow> u ''UNKNOWN'' | s0 # _ \<Rightarrow> facilityId s0)
      in u ''You are SanSure's collusion detection engine. Three independent parties submitted ''
        @ u ''assessments for facility ''
        @ facility_id
        @ u '':\<newline>''
        @ u ''\<newline>''
        @ u ''HOUSEHOLD SUBMISSION:\<newline>''
        @ (if length subs > 0 then fmt pr (subs ! 0) else u ''N/A'')
        @ u ''\<newline>''
        @ u ''\<newline>''
        @ u ''PEER SUBMISSION (non-adjacent):\<newline>''
        @ (if length subs > 1 then fmt pr (subs ! 1) else u ''N/A'')
        @ u ''\<newline>''
        @ u ''\<newline>''
        @ u ''AUDITOR SUBMISSION (separate ward):\<newline>''
        @ (if length subs > 2 then fmt pr (subs ! 2) else u ''N/A'')
        @ u ''\<newline>''
        @ u ''\<newline>''
        @ u ''Analyze for score variance, checklist consistency, feature implausibility, and ''
        @ u ''statistical independence.\<newline>''
        @ u ''\<newline>''
        @ u ''Return ONLY valid JSON (no markdown fences):\<newline>''
        @ u ''{\<newline>''
        @ u ''  "consensus_score": 0-100,\<newline>''
        @ u ''  "score_variance": 0-100,\<newline>''
        @ u ''  "collusion_risk": "low|medium|high",\<newline>''
        @ u ''  "collusion_indicators": ["indicator1"],\<newline>''
        @ u ''  "independence_confirmed": true,\<newline>''
        @ u ''  "reasoning": "brief explanation",\<newline>''
        @ u ''  "recommendation": "mint_token|hold_pending_review|reject_flag_escalate",\<newline>''
        @ u ''  "confidence": "high|medium|low"\<newline>''
        @ u ''}'')\<close>

definition run_collusion_check :: "world \<Rightarrow> CollusionRequest \<Rightarrow> (exn + pyval) \<times> world" where
  "run_collusion_check w req =
     (let prompt = collusion_prompt (printable w) req
      in case get_client w of
           Inl e \<Rightarrow> (Inl e, w)
         | Inr client \<Rightarrow>
             (case create client
                     \<lparr>model = TEXT_MODEL,
                      temperature = 0x3FB999999999999A,
                      messages =
                        [\<lparr>role = u ''system'', content = Text SANSURE_SYSTEM_INSTRUCTION\<rparr>,
                         \<lparr>role = u ''user'', content = Text prompt\<rparr>]\<rparr> w of
                (Inl e, w') \<Rightarrow> (Inl e, w')
              | (Inr response, w') \<Rightarrow>
                  (case first_content response of
                     Inl e \<Rightarrow> (Inl e, w')
                   | Inr text \<Rightarrow>
                       let result = safe_json_parse text
                       in if truthy result then (Inr result, w')
                          else (case slice_to 300 text of
                                  Inl e \<Rightarrow> (Inl e, w')
                                | Inr snippet \<Rightarrow>
                                    (Inl (ValueError (u ''Could not parse collusion response: '' @ snippet)), w')))))"

subsection \<open>Mode 3: health mirror narrator\<close>

definition narrative_prompt :: "HealthNarrativeRequest \<Rightarrow> pystr" where
  \<open>narrative_prompt req =
     u ''You are speaking to the community of ''
     @ HealthNarrativeRequest.village_name req
     @ u ''. Population: ''
     @ str_int (population req)
     @ u '' people.\<newline>''
     @ u ''\<newline>''
     @ u ''Over the past 90 days, your village maintained clean toilets. The improvement prevented ''
     @ u ''an estimated ''
     @ str_int (cases_prevented req)
     @ u '' cases of diarrheal illness.\<newline>''
     @ u ''\<newline>''
     @ u ''Write ONE warm paragraph (4-6 sentences) explaining this impact. Speak as a respected ''
     @ u ''elder at a village meeting. Use plain language. Never use these words: data, score, ''
     @ u ''metric, percentage, coefficient, algorithm, system.\<newline>''
     @ u ''\<newline>''
     @ u ''Focus on: protection of children, health of families, pride in community achievement, ''
     @ u ''connection between clean toilets and healthy children.''\<close>

text \<open>\<open>content or ""\<close>: \<open>None\<close> and the empty string both give the empty string.\<close>

definition generate_health_narrative ::
  "world \<Rightarrow> HealthNarrativeRequest \<Rightarrow> (exn + pystr) \<times> world" where
  "generate_health_narrative w req =
     (let prompt = narrative_prompt req
      in case get_client w of
           Inl e \<Rightarrow> (Inl e, w)
         | Inr client \<Rightarrow>
             (case create client
                     \<lparr>model = TEXT_MODEL,
                      temperature = 0x3FE6666666666666,
                      messages =
                        [\<lparr>role = u ''system'', content = Text SANSURE_SYSTEM_INSTRUCTION\<rparr>,
                         \<lparr>role = u ''user'', content = Text prompt\<rparr>]\<rparr> w of
                (Inl e, w') \<Rightarrow> (Inl e, w')
              | (Inr response, w') \<Rightarrow>
                  (case first_content response of
                     Inl e \<Rightarrow> (Inl e, w')
                   | Inr text \<Rightarrow>
                       (Inr (case text of None \<Rightarrow> [] | Some t \<Rightarrow> if t = [] then [] else t), w'))))"

subsection \<open>Mode 4: investor signal generator\<close>

definition investor_prompt :: "(float64 \<Rightarrow> pystr) \<Rightarrow> InvestorSignalRequest \<Rightarrow> pystr" where
  \<open>investor_prompt fr req =
     u ''You are SanSure's investment signal generator. Analyze this 90-day hygiene score ''
     @ u ''history for ''
     @ InvestorSignalRequest.village_name req
     @ u '':\<newline>''
     @ u ''\<newline>''
     @ u ''Scores: ''
     @ str_list (map fr (history req))
     @ u ''\<newline>''
     @ u ''Average: ''
     @ fr (avg req)
     @ u ''\<newline>''
     @ u ''Standard Deviation: ''
     @ fr (std_dev req)
     @ u ''\<newline>''
     @ u ''\<newline>''
     @ u ''Generate investment signals for a rural sanitation trust-rating platform.\<newline>''
     @ u ''\<newline>''
     @ u ''Return ONLY valid JSON (no markdown fences):\<newline>''
     @ u ''{\<newline>''
     @ u ''  "credit_price_inr": 80-500,\<newline>''
     @ u ''  "volatility_index": 0-100,\<newline>''
     @ u ''  "risk_rating": "AAA|AA|A|BBB|BB|B|CCC|D",\<newline>''
     @ u ''  "trend": "strongly_improving|improving|stable|declining|strongly_declining",\<newline>''
     @ u ''  "investment_signal": "max 15 words",\<newline>''
     @ u ''  "disbursement_ready": true,\<newline>''
     @ u ''  "30_day_forecast": "improving|stable|at_risk"\<newline>''
     @ u ''}''\<close>

definition generate_investor_signal ::
  "world \<Rightarrow> InvestorSignalRequest \<Rightarrow> (exn + pyval) \<times> world" where
  "generate_investor_signal w req =
     (let prompt = investor_prompt (float_repr w) req
      in case get_client w of
           Inl e \<Rightarrow> (Inl e, w)
         | Inr client \<Rightarrow>
             (case create client
                     \<lparr>model = TEXT_MODEL,
                      temperature = 0x3FB999999999999A,
                      messages =
                        [\<lparr>role = u ''system'', content = Text SANSURE_SYSTEM_INSTRUCTION\<rparr>,
                         \<lparr>role = u ''user'', content = Text prompt\<rparr>]\<rparr> w of
                (Inl e, w') \<Rightarrow> (Inl e, w')
              | (Inr response, w') \<Rightarrow>
                  (case first_content response of
                     Inl e \<Rightarrow> (Inl e, w')
                   | Inr text \<Rightarrow>
                       let result = safe_json_parse text
                       in if truthy result then (Inr result, w')
                          else (case slice_to 300 text of
                                  Inl e \<Rightarrow> (Inl e, w')
                                | Inr snippet \<Rightarrow>
                                    (Inl (ValueError (u ''Could not parse investor signal response: '' @ snippet)), w')))))"

section \<open>\<open>main.py\<close>\<close>

text \<open>
  An endpoint returns its result, or raises \<open>HTTPException\<close> with the status code and
  the message of the exception it caught.
\<close>

datatype HTTPException = HTTPException nat pystr

text \<open>
  \<open>/health\<close> answers with a dict of strings; it catches \<open>ValueError\<close> and nothing
  else, so another exception would leave it.
\<close>

definition health :: "world \<Rightarrow> (exn + (pystr \<times> pystr) list) \<times> world" where
  "health w =
     (case get_client w of
        Inr client \<Rightarrow> (Inr [(u ''status'', u ''ok''), (u ''model'', VISION_MODEL)], w)
      | Inl (ValueError m) \<Rightarrow> (Inr [(u ''status'', u ''error''), (u ''detail'', m)], w)
      | Inl e \<Rightarrow> (Inl e, w))"

definition vision_endpoint :: "world \<Rightarrow> VisionRequest \<Rightarrow> (HTTPException + pyval) \<times> world" where
  "vision_endpoint w req =
     (case run_vision_analysis w req of
        (Inr result, w') \<Rightarrow> (Inr result, w')
      | (Inl e, w') \<Rightarrow> (Inl (HTTPException 500 (str_exn e)), w'))"

definition collusion_endpoint :: "world \<Rightarrow> CollusionRequest \<Rightarrow> (HTTPException + pyval) \<times> world" where
  "collusion_endpoint w req =
     (case run_collusion_check w req of
        (Inr result, w') \<Rightarrow> (Inr result, w')
      | (Inl e, w') \<Rightarrow> (Inl (HTTPException 500 (str_exn e)), w'))"

definition health_narrative_endpoint ::
  "world \<Rightarrow> HealthNarrativeRequest \<Rightarrow> (HTTPException + (pystr \<times> pystr) list) \<times> world" where
  "health_narrative_endpoint w req =
     (case generate_health_narrative w req of
        (Inr narrative, w') \<Rightarrow> (Inr [(u ''narrative'', narrative)], w')
      | (Inl e, w') \<Rightarrow> (Inl (HTTPException 500 (str_exn e)), w'))"

definition investor_signal_endpoint ::
  "world \<Rightarrow> InvestorSignalRequest \<Rightarrow> (HTTPException + pyval) \<times> world" where
  "investor_signal_endpoint w req =
     (case generate_investor_signal w req of
        (Inr result, w') \<Rightarrow> (Inr result, w')
      | (Inl e, w') \<Rightarrow> (Inl (HTTPException 500 (str_exn e)), w'))"

section \<open>Worlds and requests for the examples\<close>

text \<open>
  The examples below run the operations in two kinds of world: one where the
  credential is not set, and one where it is set and the provider answers every call
  with one choice of the given content. In both no call has been made yet.
\<close>

definition world_unset :: world where
  "world_unset =
     \<lparr>GROQ_API_KEY = None,
      provider = (\<lambda>key rq. Inl (GroqError (u ''connection refused''))),
      calls = [],
      printable = (\<lambda>c. False),
      float_repr = (\<lambda>x. u ''0.0'')\<rparr>"

definition world_answering :: "pystr option \<Rightarrow> world" where
  "world_answering answer =
     \<lparr>GROQ_API_KEY = Some (u ''gsk_live_key''),
      provider = (\<lambda>key rq. Inr \<lparr>choices = [answer]\<rparr>),
      calls = [],
      printable = (\<lambda>c. False),
      float_repr = (\<lambda>x. u ''0.0'')\<rparr>"

definition a_vision_request :: VisionRequest where
  "a_vision_request =
     \<lparr>base64_image = u ''/9j/4AAQSkZJRg=='',
      checklist = \<lparr>door = True, water = True, clean = False, toilet = True\<rparr>\<rparr>"

definition a_narrative_request :: HealthNarrativeRequest where
  "a_narrative_request =
     \<lparr>HealthNarrativeRequest.village_name = u ''Rampur'', population = 1200,
      avg_score = 0x4052000000000000, cases_prevented = 14\<rparr>"

definition an_investor_request :: InvestorSignalRequest where
  "an_investor_request =
     \<lparr>village_name = u ''Rampur'', history = [], avg = 0, std_dev = 0\<rparr>"

text \<open>Four submissions on one facility, for the collusion examples.\<close>

definition household_submission :: SubmissionModel where
  "household_submission =
     \<lparr>id_sub = u ''s-1'', facilityId = u ''FAC-001'', submitterType = u ''household'',
      score = 82, checklist = \<lparr>door = True, water = True, clean = True, toilet = True\<rparr>,
      features = [u ''door'', u ''bucket''], discrepancies = []\<rparr>"

definition peer_submission :: SubmissionModel where
  "peer_submission =
     \<lparr>id_sub = u ''s-2'', facilityId = u ''FAC-001'', submitterType = u ''peer'',
      score = 78, checklist = \<lparr>door = True, water = False, clean = True, toilet = True\<rparr>,
      features = [u ''door''], discrepancies = [u ''no water'']\<rparr>"

definition auditor_submission :: SubmissionModel where
  "auditor_submission =
     \<lparr>id_sub = u ''s-3'', facilityId = u ''FAC-001'', submitterType = u ''auditor'',
      score = 80, checklist = \<lparr>door = True, water = True, clean = True, toilet = True\<rparr>,
      features = [], discrepancies = []\<rparr>"

definition fourth_submission :: SubmissionModel where
  "fourth_submission =
     \<lparr>id_sub = u ''s-4'', facilityId = u ''FAC-999'', submitterType = u ''household'',
      score = 5, checklist = \<lparr>door = False, water = False, clean = False, toilet = False\<rparr>,
      features = [u ''none''], discrepancies = [u ''everything'']\<rparr>"

section \<open>Properties\<close>

subsection \<open>The parsing helper\<close>


lemma fence_sub_no_backtick: "96 \<notin> set t \<Longrightarrow> fence_sub (t @ s) = t @ fence_sub s"
  by (induction t) (auto simp: startswith_def)

lemma fence_sub_wrapped:
  "96 \<notin> set t \<Longrightarrow> fence_sub (u ''```json\<newline>'' @ t @ u ''\<newline>```'') = t @ [10]"
proof -
  assume nb: "96 \<notin> set t"
  have "fence_sub (u ''```json\<newline>'' @ t @ u ''\<newline>```'') = fence_sub (t @ u ''\<newline>```'')"
    by (simp add: startswith_def)
  also have "\<dots> = t @ fence_sub (u ''\<newline>```'')"
    using nb by (rule fence_sub_no_backtick)
  also have "fence_sub (u ''\<newline>```'') = [10]"
    by (simp add: startswith_def)
  finally show ?thesis .
qed

lemma fence_sub_plain: "96 \<notin> set t \<Longrightarrow> fence_sub t = t"
  using fence_sub_no_backtick [of t "[]"] by simp

lemma py_strip_newline: "py_strip (t @ [10]) = py_strip t"
proof (cases "\<forall>c\<in>set t. py_isspace c")
  case True
  have nl: "py_isspace 10" by (simp add: py_isspace_def)
  from True have a: "dropWhile py_isspace t = []"
    by (simp add: dropWhile_eq_Nil_conv)
  from True have "dropWhile py_isspace (t @ [10]) = dropWhile py_isspace [10]"
    by (simp add: dropWhile_append2)
  also have "\<dots> = []"
    using nl by simp
  finally have b: "dropWhile py_isspace (t @ [10]) = []" .
  show ?thesis unfolding py_strip_def a b by simp
next
  case False
  have nl: "py_isspace 10" by (simp add: py_isspace_def)
  from False obtain c where c: "c \<in> set t" "\<not> py_isspace c"
    by blast
  then have d: "dropWhile py_isspace (t @ [10]) = dropWhile py_isspace t @ [10]"
    by (rule dropWhile_append1)
  have "dropWhile py_isspace (rev (dropWhile py_isspace t @ [10]))
        = dropWhile py_isspace (10 # rev (dropWhile py_isspace t))"
    by simp
  also have "\<dots> = dropWhile py_isspace (rev (dropWhile py_isspace t))"
    using nl by simp
  finally show ?thesis
    unfolding py_strip_def d by (rule arg_cong)
qed

lemma json_loads_empty: "json_loads [] = None"
  by (simp add: json_loads_def startswith_def skip_ws_def)

text \<open>
  Claim C2. Code-fence stripping is transparent to JSON parsing: for every text \<open>t\<close>
  without a backtick, \<open>safe_json_parse\<close> applied to \<open>t\<close> wrapped in a \<open>```json\<close> line
  and a closing \<open>```\<close> line returns what it returns applied to \<open>t\<close> alone. The
  witness is the spec's example: the wrapped \<open>{"a":1}\<close> parses to the mapping of
  \<open>a\<close> to \<open>1\<close>, as the bare text does.
\<close>

theorem fence_stripping_transparent:
  assumes "96 \<notin> set t"
  shows "safe_json_parse (Some (u ''```json\<newline>'' @ t @ u ''\<newline>```'')) = safe_json_parse (Some t)"
proof -
  have "py_strip (fence_sub (u ''```json\<newline>'' @ t @ u ''\<newline>```'')) = py_strip (t @ [10])"
    using fence_sub_wrapped [OF assms] by (rule arg_cong)
  then have eq: "py_strip (fence_sub (u ''```json\<newline>'' @ t @ u ''\<newline>```'')) = py_strip (fence_sub t)"
    using fence_sub_plain [OF assms] py_strip_newline by metis
  have "t = [] \<Longrightarrow> json_loads (py_strip (fence_sub t)) = None"
    by (simp add: py_strip_def json_loads_empty)
  with eq show ?thesis
    unfolding safe_json_parse_def Let_def by (cases "t = []") simp_all
qed

lemmas json_eval = json_loads_def startswith_def skip_ws_def is_json_ws_def is_digit_def
  match_number_def nat_of_digits_def cons_char_def backslash_def decode_uXXXX_def hex_val_def Let_def


lemma safe_json_parse_valid:
  "json_loads (py_strip (fence_sub t)) = Some v \<Longrightarrow> safe_json_parse (Some t) = v"
proof -
  assume v: "json_loads (py_strip (fence_sub t)) = Some v"
  have "t \<noteq> []"
  proof
    assume "t = []"
    then have "json_loads (py_strip (fence_sub t)) = None"
      by (simp add: py_strip_def json_loads_empty)
    with v show False by simp
  qed
  with v show ?thesis by (simp add: safe_json_parse_def)
qed


lemma object_example_loads: \<open>json_loads (u ''{"a":1}'') = Some (PyDict [(u ''a'', PyInt 1)])\<close>
  by (simp add: json_eval)





subsection \<open>What the decoder reads as \<open>None\<close>\<close>



















lemma object_example_clean: \<open>py_strip (fence_sub (u ''{"a":1}'')) = u ''{"a":1}''\<close>
  by (simp add: startswith_def py_strip_def py_isspace_def)

lemma object_example_parse:
  \<open>safe_json_parse (Some (u ''{"a":1}'')) = PyDict [(u ''a'', PyInt 1)]\<close>
  by (rule safe_json_parse_valid) (simp only: object_example_clean object_example_loads)

theorem fence_stripping_transparent_witness:
  \<open>96 \<notin> set (u ''{"a":1}'')
   \<and> safe_json_parse (Some (u ''```json\<newline>'' @ u ''{"a":1}'' @ u ''\<newline>```''))
       = safe_json_parse (Some (u ''{"a":1}''))
   \<and> safe_json_parse (Some (u ''{"a":1}'')) = PyDict [(u ''a'', PyInt 1)]\<close>
proof -
  have nb: \<open>96 \<notin> set (u ''{"a":1}'')\<close>
    by simp
  from nb fence_stripping_transparent [OF nb] object_example_parse show ?thesis
    by (intro conjI)
qed

subsection \<open>The credential\<close>

lemma get_client_unset:
  "GROQ_API_KEY w = None \<or> GROQ_API_KEY w = Some [] \<or> GROQ_API_KEY w = Some (u ''PLACEHOLDER_API_KEY'')
   \<Longrightarrow> get_client w = Inl (ValueError (u ''GROQ_API_KEY not set in backend/.env''))"
  unfolding get_client_def by (auto split: option.splits)

lemma get_client_set:
  "GROQ_API_KEY w = Some k \<Longrightarrow> k \<noteq> [] \<Longrightarrow> k \<noteq> u ''PLACEHOLDER_API_KEY''
   \<Longrightarrow> get_client w = Inr (Groq k)"
  unfolding get_client_def by simp

lemma get_client_cases:
  "get_client w = Inl (ValueError (u ''GROQ_API_KEY not set in backend/.env''))
   \<or> (\<exists>k. GROQ_API_KEY w = Some k \<and> k \<noteq> [] \<and> k \<noteq> u ''PLACEHOLDER_API_KEY'' \<and> get_client w = Inr (Groq k))"
  unfolding get_client_def by (cases "GROQ_API_KEY w") auto

lemma world_unset_key: "GROQ_API_KEY world_unset = None"
  by (simp add: world_unset_def)

lemma world_answering_key:
  "GROQ_API_KEY (world_answering a) = Some (u ''gsk_live_key'')"
  "u ''gsk_live_key'' \<noteq> []"
  "u ''gsk_live_key'' \<noteq> u ''PLACEHOLDER_API_KEY''"
  by (simp_all add: world_answering_def)

lemma world_answering_provider:
  "provider (world_answering a) (u ''gsk_live_key'') = (\<lambda>rq. Inr \<lparr>choices = [a]\<rparr>)"
  "choices \<lparr>choices = [a]\<rparr> = a # []"
  by (simp_all add: world_answering_def)

lemma vision_unset:
  "get_client w = Inl e \<Longrightarrow> run_vision_analysis w req = (Inl e, w)"
  by (simp add: run_vision_analysis_def)

lemma collusion_unset:
  "get_client w = Inl e \<Longrightarrow> run_collusion_check w req = (Inl e, w)"
  by (simp add: run_collusion_check_def)

lemma narrative_unset:
  "get_client w = Inl e \<Longrightarrow> generate_health_narrative w req = (Inl e, w)"
  by (simp add: generate_health_narrative_def)

lemma investor_unset:
  "get_client w = Inl e \<Longrightarrow> generate_investor_signal w req = (Inl e, w)"
  by (simp add: generate_investor_signal_def)

text \<open>
  Claim C4. When the credential is absent or is the placeholder, each of the four
  operations raises the configuration error and hands the world back as it was: the
  list of outbound calls is unchanged. The endpoints answer 500 with that message.
\<close>

theorem unset_credential_fails_before_call:
  assumes "GROQ_API_KEY w = None \<or> GROQ_API_KEY w = Some (u ''PLACEHOLDER_API_KEY'')"
  shows "run_vision_analysis w vreq = (Inl (ValueError (u ''GROQ_API_KEY not set in backend/.env'')), w)
       \<and> run_collusion_check w creq = (Inl (ValueError (u ''GROQ_API_KEY not set in backend/.env'')), w)
       \<and> generate_health_narrative w hreq = (Inl (ValueError (u ''GROQ_API_KEY not set in backend/.env'')), w)
       \<and> generate_investor_signal w ireq = (Inl (ValueError (u ''GROQ_API_KEY not set in backend/.env'')), w)
       \<and> vision_endpoint w vreq = (Inl (HTTPException 500 (u ''GROQ_API_KEY not set in backend/.env'')), w)
       \<and> collusion_endpoint w creq = (Inl (HTTPException 500 (u ''GROQ_API_KEY not set in backend/.env'')), w)
       \<and> health_narrative_endpoint w hreq = (Inl (HTTPException 500 (u ''GROQ_API_KEY not set in backend/.env'')), w)
       \<and> investor_signal_endpoint w ireq = (Inl (HTTPException 500 (u ''GROQ_API_KEY not set in backend/.env'')), w)"
proof -
  from assms have g: "get_client w = Inl (ValueError (u ''GROQ_API_KEY not set in backend/.env''))"
    by (intro get_client_unset) blast
  note ops = vision_unset [OF g] collusion_unset [OF g] narrative_unset [OF g] investor_unset [OF g]
  show ?thesis
    unfolding vision_endpoint_def collusion_endpoint_def health_narrative_endpoint_def
      investor_signal_endpoint_def ops
    by (simp only: prod.case sum.case str_exn.simps simp_thms)
qed

theorem unset_credential_fails_before_call_witness:
  "GROQ_API_KEY world_unset = None
   \<and> run_vision_analysis world_unset a_vision_request
       = (Inl (ValueError (u ''GROQ_API_KEY not set in backend/.env'')), world_unset)
   \<and> collusion_endpoint world_unset \<lparr>submissions = []\<rparr>
       = (Inl (HTTPException 500 (u ''GROQ_API_KEY not set in backend/.env'')), world_unset)
   \<and> generate_health_narrative world_unset a_narrative_request
       = (Inl (ValueError (u ''GROQ_API_KEY not set in backend/.env'')), world_unset)
   \<and> generate_investor_signal world_unset an_investor_request
       = (Inl (ValueError (u ''GROQ_API_KEY not set in backend/.env'')), world_unset)
   \<and> calls world_unset = []"
proof -
  have k: "GROQ_API_KEY world_unset = None \<or> GROQ_API_KEY world_unset = Some (u ''PLACEHOLDER_API_KEY'')"
    using world_unset_key by (rule disjI1)
  have c: "calls world_unset = []"
    by (simp add: world_unset_def)
  from unset_credential_fails_before_call
         [OF k, of a_vision_request "\<lparr>submissions = []\<rparr>" a_narrative_request an_investor_request]
    world_unset_key c
  show ?thesis by blast
qed

text \<open>
  Claim C5. \<open>health\<close> makes no call (the world comes back as it was) and never raises.
  It answers \<open>ok\<close> with the model identifier exactly when the credential is set to
  something other than the placeholder, an empty value counting as not set, as the
  code's own message has it; and it answers \<open>error\<close> with the detail when the
  credential is absent or is the placeholder.
\<close>

theorem health_reports_credential:
  "snd (health w) = w
   \<and> (\<exists>d. fst (health w) = Inr d)
   \<and> (fst (health w) = Inr [(u ''status'', u ''ok''), (u ''model'', VISION_MODEL)]
        \<longleftrightarrow> (\<exists>k. GROQ_API_KEY w = Some k \<and> k \<noteq> [] \<and> k \<noteq> u ''PLACEHOLDER_API_KEY''))
   \<and> (GROQ_API_KEY w = None \<or> GROQ_API_KEY w = Some (u ''PLACEHOLDER_API_KEY'')
        \<longrightarrow> fst (health w) = Inr [(u ''status'', u ''error''),
                                    (u ''detail'', u ''GROQ_API_KEY not set in backend/.env'')])"
proof -
  have ne: "[(u ''status'', u ''error''), (u ''detail'', u ''GROQ_API_KEY not set in backend/.env'')]
            \<noteq> [(u ''status'', u ''ok''), (u ''model'', VISION_MODEL)]"
    by simp
  from get_client_cases [of w] show ?thesis
  proof
    assume g: "get_client w = Inl (ValueError (u ''GROQ_API_KEY not set in backend/.env''))"
    then have h: "health w = (Inr [(u ''status'', u ''error''),
                                   (u ''detail'', u ''GROQ_API_KEY not set in backend/.env'')], w)"
      by (simp add: health_def)
    have "\<not> (\<exists>k. GROQ_API_KEY w = Some k \<and> k \<noteq> [] \<and> k \<noteq> u ''PLACEHOLDER_API_KEY'')"
    proof
      assume "\<exists>k. GROQ_API_KEY w = Some k \<and> k \<noteq> [] \<and> k \<noteq> u ''PLACEHOLDER_API_KEY''"
      then obtain k where "GROQ_API_KEY w = Some k" "k \<noteq> []" "k \<noteq> u ''PLACEHOLDER_API_KEY''"
        by blast
      then have "get_client w = Inr (Groq k)"
        by (rule get_client_set)
      with g show False by simp
    qed
    with h ne show ?thesis
      by (simp only: fst_conv snd_conv sum.inject simp_thms)
  next
    assume "\<exists>k. GROQ_API_KEY w = Some k \<and> k \<noteq> [] \<and> k \<noteq> u ''PLACEHOLDER_API_KEY''
                \<and> get_client w = Inr (Groq k)"
    then obtain k where k: "GROQ_API_KEY w = Some k" "k \<noteq> []" "k \<noteq> u ''PLACEHOLDER_API_KEY''"
      and g: "get_client w = Inr (Groq k)"
      by blast
    from g have h: "health w = (Inr [(u ''status'', u ''ok''), (u ''model'', VISION_MODEL)], w)"
      by (simp add: health_def)
    from k have "GROQ_API_KEY w \<noteq> None" "GROQ_API_KEY w \<noteq> Some (u ''PLACEHOLDER_API_KEY'')"
      by auto
    with h k show ?thesis
      by (simp only: fst_conv snd_conv simp_thms) blast
  qed
qed

theorem health_reports_credential_witness:
  "health world_unset
     = (Inr [(u ''status'', u ''error''), (u ''detail'', u ''GROQ_API_KEY not set in backend/.env'')],
        world_unset)
   \<and> health (world_answering None)
     = (Inr [(u ''status'', u ''ok''), (u ''model'', VISION_MODEL)], world_answering None)"
proof -
  have a: "\<exists>k. GROQ_API_KEY (world_answering None) = Some k \<and> k \<noteq> [] \<and> k \<noteq> u ''PLACEHOLDER_API_KEY''"
    using world_answering_key(1) [of None] world_answering_key(2,3) by blast
  from health_reports_credential [of world_unset] world_unset_key
  have "fst (health world_unset)
          = Inr [(u ''status'', u ''error''), (u ''detail'', u ''GROQ_API_KEY not set in backend/.env'')]"
    and "snd (health world_unset) = world_unset"
    by blast+
  moreover from health_reports_credential [of "world_answering None"] a
  have "fst (health (world_answering None)) = Inr [(u ''status'', u ''ok''), (u ''model'', VISION_MODEL)]"
    and "snd (health (world_answering None)) = world_answering None"
    by blast+
  ultimately show ?thesis
    by (simp only: prod_eq_iff fst_conv snd_conv simp_thms)
qed

subsection \<open>What an operation makes of the provider's answer\<close>


lemma collusion_answer:
  assumes "get_client w = Inr (Groq key)" and "provider w key = (\<lambda>rq. Inr resp)"
    and "choices resp = Some t # rest"
  shows "fst (run_collusion_check w req) =
           (if truthy (safe_json_parse (Some t)) then Inr (safe_json_parse (Some t))
            else Inl (ValueError (u ''Could not parse collusion response: '' @ take 300 t)))"
  using assms
  by (simp add: run_collusion_check_def create_def first_content_def slice_to_def Let_def)


lemma narrative_answer:
  assumes "get_client w = Inr (Groq key)" and "provider w key = (\<lambda>rq. Inr resp)"
    and "choices resp = answer # rest"
  shows "fst (generate_health_narrative w req) = Inr (case answer of None \<Rightarrow> [] | Some t \<Rightarrow> t)"
  using assms
  by (simp add: generate_health_narrative_def create_def first_content_def Let_def
           split: option.splits)

lemma endpoint_fst:
  "fst (vision_endpoint w vreq) =
     (case fst (run_vision_analysis w vreq) of Inr r \<Rightarrow> Inr r | Inl e \<Rightarrow> Inl (HTTPException 500 (str_exn e)))"
  "fst (collusion_endpoint w creq) =
     (case fst (run_collusion_check w creq) of Inr r \<Rightarrow> Inr r | Inl e \<Rightarrow> Inl (HTTPException 500 (str_exn e)))"
  "fst (investor_signal_endpoint w ireq) =
     (case fst (generate_investor_signal w ireq) of Inr r \<Rightarrow> Inr r | Inl e \<Rightarrow> Inl (HTTPException 500 (str_exn e)))"
  "fst (health_narrative_endpoint w hreq) =
     (case fst (generate_health_narrative w hreq) of Inr n \<Rightarrow> Inr [(u ''narrative'', n)]
      | Inl e \<Rightarrow> Inl (HTTPException 500 (str_exn e)))"
  by (simp_all add: vision_endpoint_def collusion_endpoint_def investor_signal_endpoint_def
        health_narrative_endpoint_def split: prod.splits sum.splits)




text \<open>
  Claim C7. With the credential set and an answer from the provider, the narrative
  operation returns the text of the answer as it is, whatever it is, and the empty
  string when the answer holds no text; the endpoint wraps it as \<open>narrative\<close>. No
  parsing takes part: the result is the text itself.
\<close>

theorem narrative_is_the_text:
  assumes "GROQ_API_KEY w = Some key" and "key \<noteq> []" and "key \<noteq> u ''PLACEHOLDER_API_KEY''"
    and "provider w key = (\<lambda>rq. Inr resp)"
    and "choices resp = answer # rest"
  shows "fst (generate_health_narrative w hreq) = Inr (case answer of None \<Rightarrow> [] | Some t \<Rightarrow> t)
       \<and> fst (health_narrative_endpoint w hreq)
           = Inr [(u ''narrative'', case answer of None \<Rightarrow> [] | Some t \<Rightarrow> t)]"
proof -
  from assms(1-3) have g: "get_client w = Inr (Groq key)"
    by (rule get_client_set)
  show ?thesis
    unfolding endpoint_fst narrative_answer [OF g assms(4,5)] by simp
qed

theorem narrative_is_the_text_witness:
  \<open>fst (generate_health_narrative (world_answering None) a_narrative_request) = Inr []
   \<and> fst (health_narrative_endpoint (world_answering None) a_narrative_request)
       = Inr [(u ''narrative'', [])]
   \<and> fst (generate_health_narrative (world_answering (Some (u ''{"a":1''))) a_narrative_request)
       = Inr (u ''{"a":1'')\<close>
proof -
  note a = narrative_is_the_text
             [OF world_answering_key world_answering_provider,
              where answer = None and hreq = a_narrative_request]
  note b = narrative_is_the_text
             [OF world_answering_key world_answering_provider,
              where answer = \<open>Some (u ''{"a":1'')\<close> and hreq = a_narrative_request]
  from a b show ?thesis
    by (simp only: option.case simp_thms)
qed

subsection \<open>The collusion prompt\<close>

lemma sublist_skip: "sublist xs ys \<Longrightarrow> sublist xs (ps @ ys)"
  by (auto simp: sublist_def) (metis append.assoc)

lemma prefix_step: "prefix xs ys \<Longrightarrow> prefix (a @ xs) (a @ ys)"
  by simp

lemma prefix_last: "prefix a (a @ ys)"
  by simp

lemma collusion_prompt_block:
  "sublist
     (u ''assessments for facility ''
      @ (case submissions req of [] \<Rightarrow> u ''UNKNOWN'' | s0 # _ \<Rightarrow> facilityId s0)
      @ u '':\<newline>''
      @ u ''\<newline>''
      @ u ''HOUSEHOLD SUBMISSION:\<newline>''
      @ (if length (submissions req) > 0 then fmt pr (submissions req ! 0) else u ''N/A'')
      @ u ''\<newline>''
      @ u ''\<newline>''
      @ u ''PEER SUBMISSION (non-adjacent):\<newline>''
      @ (if length (submissions req) > 1 then fmt pr (submissions req ! 1) else u ''N/A'')
      @ u ''\<newline>''
      @ u ''\<newline>''
      @ u ''AUDITOR SUBMISSION (separate ward):\<newline>''
      @ (if length (submissions req) > 2 then fmt pr (submissions req ! 2) else u ''N/A'')
      @ u ''\<newline>'')
     (collusion_prompt pr req)"
  unfolding collusion_prompt_def Let_def
  apply (rule sublist_skip)
  apply (rule prefix_imp_sublist)
  apply (intro prefix_step)
  apply (rule prefix_last)
  done

lemma sublist_drop_front: "sublist (a @ xs) ys \<Longrightarrow> sublist xs ys"
  by (auto simp: sublist_def) (metis append.assoc)

lemma slot0:
  "(if length xs > 0 then f (xs ! 0) else d) = (case xs of [] \<Rightarrow> d | h # _ \<Rightarrow> f h)"
  by (cases xs) simp_all

lemma slot1:
  "(if length xs > 1 then f (xs ! 1) else d) = (case xs of _ # p # _ \<Rightarrow> f p | _ \<Rightarrow> d)"
  by (cases xs; cases "tl xs") auto

lemma slot2:
  "length xs \<le> 2 \<Longrightarrow> (if length xs > 2 then f (xs ! 2) else d) = d"
  by simp

text \<open>
  Claim C6. For a request with at most two submissions the prompt holds, one after the
  other, the household label and its slot, the peer label and its slot, and the auditor
  label and its slot; a slot is the rendering of the submission at that place when
  there is one and \<open>N/A\<close> when there is none, the auditor's always \<open>N/A\<close>.
\<close>

theorem collusion_prompt_keeps_every_slot:
  assumes "length (submissions req) \<le> 2"
  shows "sublist
           (u ''HOUSEHOLD SUBMISSION:\<newline>''
            @ (case submissions req of [] \<Rightarrow> u ''N/A'' | h # _ \<Rightarrow> fmt pr h)
            @ u ''\<newline>''
            @ u ''\<newline>''
            @ u ''PEER SUBMISSION (non-adjacent):\<newline>''
            @ (case submissions req of _ # p # _ \<Rightarrow> fmt pr p | _ \<Rightarrow> u ''N/A'')
            @ u ''\<newline>''
            @ u ''\<newline>''
            @ u ''AUDITOR SUBMISSION (separate ward):\<newline>''
            @ u ''N/A''
            @ u ''\<newline>'')
           (collusion_prompt pr req)"
proof -
  note b = collusion_prompt_block [of req pr]
  note b1 = sublist_drop_front [OF sublist_drop_front [OF sublist_drop_front [OF sublist_drop_front [OF b]]]]
  show ?thesis
    using b1 unfolding slot0 slot1 slot2 [OF assms] .
qed

theorem collusion_prompt_keeps_every_slot_witness:
  "length (submissions \<lparr>submissions = [household_submission]\<rparr>) \<le> 2
   \<and> sublist
       (u ''HOUSEHOLD SUBMISSION:\<newline>''
        @ fmt (\<lambda>c. False) household_submission
        @ u ''\<newline>''
        @ u ''\<newline>''
        @ u ''PEER SUBMISSION (non-adjacent):\<newline>''
        @ u ''N/A''
        @ u ''\<newline>''
        @ u ''\<newline>''
        @ u ''AUDITOR SUBMISSION (separate ward):\<newline>''
        @ u ''N/A''
        @ u ''\<newline>'')
       (collusion_prompt (\<lambda>c. False) \<lparr>submissions = [household_submission]\<rparr>)"
proof -
  have l: "length (submissions \<lparr>submissions = [household_submission]\<rparr>) \<le> 2"
    by simp
  from collusion_prompt_keeps_every_slot [OF l, of "\<lambda>c. False"] l
  show ?thesis
    by (simp only: CollusionRequest.select_convs list.case simp_thms)
qed

lemma collusion_call:
  assumes "get_client w = Inr (Groq key)"
  shows "calls (snd (run_collusion_check w req)) =
           calls w @ [(key, \<lparr>model = TEXT_MODEL, temperature = 0x3FB999999999999A,
                             messages = [\<lparr>role = u ''system'', content = Text SANSURE_SYSTEM_INSTRUCTION\<rparr>,
                                         \<lparr>role = u ''user'',
                                          content = Text (collusion_prompt (printable w) req)\<rparr>]\<rparr>)]"
  using assms
  by (simp add: run_collusion_check_def create_def Let_def split: sum.splits prod.splits)

text \<open>
  Claim C8. For a request without submissions the prompt names the facility
  \<open>UNKNOWN\<close> and fills the three slots with \<open>N/A\<close>; and with the credential set the
  operation goes on to the provider with that prompt: the call it makes is the next
  entry of the outbound calls, so nothing was raised while the prompt was built.
\<close>

theorem empty_submissions_prompt_built:
  assumes "submissions req = []"
    and "GROQ_API_KEY w = Some key" and "key \<noteq> []" and "key \<noteq> u ''PLACEHOLDER_API_KEY''"
  shows "sublist
           (u ''assessments for facility ''
            @ u ''UNKNOWN''
            @ u '':\<newline>''
            @ u ''\<newline>''
            @ u ''HOUSEHOLD SUBMISSION:\<newline>''
            @ u ''N/A''
            @ u ''\<newline>''
            @ u ''\<newline>''
            @ u ''PEER SUBMISSION (non-adjacent):\<newline>''
            @ u ''N/A''
            @ u ''\<newline>''
            @ u ''\<newline>''
            @ u ''AUDITOR SUBMISSION (separate ward):\<newline>''
            @ u ''N/A''
            @ u ''\<newline>'')
           (collusion_prompt pr req)
       \<and> calls (snd (run_collusion_check w req)) =
           calls w @ [(key, \<lparr>model = TEXT_MODEL, temperature = 0x3FB999999999999A,
                             messages = [\<lparr>role = u ''system'', content = Text SANSURE_SYSTEM_INSTRUCTION\<rparr>,
                                         \<lparr>role = u ''user'',
                                          content = Text (collusion_prompt (printable w) req)\<rparr>]\<rparr>)]"
proof -
  have f: "(case submissions req of [] \<Rightarrow> u ''UNKNOWN'' | s0 # _ \<Rightarrow> facilityId s0) = u ''UNKNOWN''"
    by (simp only: assms(1) list.case)
  have s: "\<And>i. (if length (submissions req) > i then fmt pr (submissions req ! i) else u ''N/A'') = u ''N/A''"
    by (simp only: assms(1) list.size less_nat_zero_code if_False)
  from assms(2-4) have g: "get_client w = Inr (Groq key)"
    by (rule get_client_set)
  have "sublist
           (u ''assessments for facility ''
            @ u ''UNKNOWN''
            @ u '':\<newline>''
            @ u ''\<newline>''
            @ u ''HOUSEHOLD SUBMISSION:\<newline>''
            @ u ''N/A''
            @ u ''\<newline>''
            @ u ''\<newline>''
            @ u ''PEER SUBMISSION (non-adjacent):\<newline>''
            @ u ''N/A''
            @ u ''\<newline>''
            @ u ''\<newline>''
            @ u ''AUDITOR SUBMISSION (separate ward):\<newline>''
            @ u ''N/A''
            @ u ''\<newline>'')
           (collusion_prompt pr req)"
    using collusion_prompt_block [of req pr] unfolding f s .
  with collusion_call [OF g, of req] show ?thesis
    by (rule_tac conjI)
qed

theorem empty_submissions_prompt_built_witness:
  "sublist
     (u ''assessments for facility ''
      @ u ''UNKNOWN''
      @ u '':\<newline>''
      @ u ''\<newline>''
      @ u ''HOUSEHOLD SUBMISSION:\<newline>''
      @ u ''N/A''
      @ u ''\<newline>''
      @ u ''\<newline>''
      @ u ''PEER SUBMISSION (non-adjacent):\<newline>''
      @ u ''N/A''
      @ u ''\<newline>''
      @ u ''\<newline>''
      @ u ''AUDITOR SUBMISSION (separate ward):\<newline>''
      @ u ''N/A''
      @ u ''\<newline>'')
     (collusion_prompt (\<lambda>c. False) \<lparr>submissions = []\<rparr>)
   \<and> length (calls (snd (run_collusion_check (world_answering None) \<lparr>submissions = []\<rparr>))) = 1"
proof -
  have e: "submissions \<lparr>submissions = []\<rparr> = []"
    by simp
  have c: "calls (world_answering None) = []"
    by (simp add: world_answering_def)
  from empty_submissions_prompt_built
         [OF e world_answering_key, where pr = "\<lambda>c. False" and a1 = None]
  show ?thesis
    unfolding c by simp
qed

subsection \<open>What the prompts do not read\<close>

lemma narrative_prompt_avg_score:
  "narrative_prompt (req\<lparr>avg_score := x\<rparr>) = narrative_prompt req"
proof -
  have v: "HealthNarrativeRequest.village_name (req\<lparr>avg_score := x\<rparr>)
           = HealthNarrativeRequest.village_name req"
    by simp
  have p: "population (req\<lparr>avg_score := x\<rparr>) = population req"
    by simp
  have c: "cases_prevented (req\<lparr>avg_score := x\<rparr>) = cases_prevented req"
    by simp
  show ?thesis
    unfolding narrative_prompt_def v p c ..
qed

text \<open>
  Claim C9. Two requests that differ only in \<open>avg_score\<close> are a request and the same
  request with another \<open>avg_score\<close>. Their prompts are the same string, and the
  operation and the endpoint do the same on both: the same call, the same result.
\<close>

theorem narrative_ignores_avg_score:
  "narrative_prompt (req\<lparr>avg_score := x\<rparr>) = narrative_prompt req
   \<and> generate_health_narrative w (req\<lparr>avg_score := x\<rparr>) = generate_health_narrative w req
   \<and> health_narrative_endpoint w (req\<lparr>avg_score := x\<rparr>) = health_narrative_endpoint w req"
  by (simp only: health_narrative_endpoint_def generate_health_narrative_def
        narrative_prompt_avg_score simp_thms)

theorem narrative_ignores_avg_score_witness:
  "a_narrative_request\<lparr>avg_score := 0x4059000000000000\<rparr> \<noteq> a_narrative_request
   \<and> narrative_prompt (a_narrative_request\<lparr>avg_score := 0x4059000000000000\<rparr>)
       = narrative_prompt a_narrative_request
   \<and> generate_health_narrative (world_answering None) (a_narrative_request\<lparr>avg_score := 0x4059000000000000\<rparr>)
       = generate_health_narrative (world_answering None) a_narrative_request"
proof -
  have d: "a_narrative_request\<lparr>avg_score := 0x4059000000000000\<rparr> \<noteq> a_narrative_request"
    by (simp add: a_narrative_request_def)
  from narrative_ignores_avg_score
         [where req = a_narrative_request and x = "0x4059000000000000" and w = "world_answering None"] d
  show ?thesis
    by blast
qed

lemma take3_slot:
  assumes "take 3 xs = take 3 ys" and "i < 3"
  shows "(if length xs > i then f (xs ! i) else d) = (if length ys > i then f (ys ! i) else d)"
proof -
  have l: "min (length xs) 3 = min (length ys) 3"
    using arg_cong [OF assms(1), of length] by simp
  have n: "take 3 xs ! i = take 3 ys ! i"
    by (simp only: assms(1))
  from l assms(2) have g: "(length xs > i) = (length ys > i)"
    by auto
  from n assms(2) have "xs ! i = ys ! i"
    by simp
  with g show ?thesis
    by simp
qed

lemma take3_head:
  assumes "take 3 xs = take 3 ys"
  shows "(case xs of [] \<Rightarrow> d | h # _ \<Rightarrow> f h) = (case ys of [] \<Rightarrow> d | h # _ \<Rightarrow> f h)"
  using assms by (cases xs; cases ys) simp_all

lemma collusion_prompt_take3:
  assumes "take 3 (submissions r1) = take 3 (submissions r2)"
  shows "collusion_prompt pr r1 = collusion_prompt pr r2"
  unfolding collusion_prompt_def Let_def
  by (simp only: take3_head [OF assms] take3_slot [OF assms, of 0] take3_slot [OF assms, of 1]
        take3_slot [OF assms, of 2] simp_thms)

text \<open>
  Claim C10. The request model puts no bound on the number of submissions and the
  operation checks none. Two requests with the same first three submissions get the same
  prompt, whatever follows the third, and the operation and the endpoint do the same on
  both; so a request with more than three is treated as the request cut after the third.
\<close>

theorem submissions_beyond_third_ignored:
  assumes "take 3 (submissions r1) = take 3 (submissions r2)"
  shows "collusion_prompt pr r1 = collusion_prompt pr r2
       \<and> run_collusion_check w r1 = run_collusion_check w r2
       \<and> collusion_endpoint w r1 = collusion_endpoint w r2"
  by (simp only: collusion_endpoint_def run_collusion_check_def
        collusion_prompt_take3 [OF assms] simp_thms)

theorem submissions_beyond_third_ignored_witness:
  \<open>collusion_prompt (\<lambda>c. False)
       \<lparr>submissions = [household_submission, peer_submission, auditor_submission, fourth_submission]\<rparr>
     = collusion_prompt (\<lambda>c. False)
         \<lparr>submissions = [household_submission, peer_submission, auditor_submission]\<rparr>
   \<and> run_collusion_check (world_answering (Some (u ''{"a":1}'')))
         \<lparr>submissions = [household_submission, peer_submission, auditor_submission, fourth_submission]\<rparr>
     = run_collusion_check (world_answering (Some (u ''{"a":1}'')))
         \<lparr>submissions = [household_submission, peer_submission, auditor_submission]\<rparr>
   \<and> fst (run_collusion_check (world_answering (Some (u ''{"a":1}'')))
         \<lparr>submissions = [household_submission, peer_submission, auditor_submission, fourth_submission]\<rparr>)
     = Inr (PyDict [(u ''a'', PyInt 1)])\<close>
proof -
  have t: "take 3 (submissions \<lparr>submissions = [household_submission, peer_submission,
                                                  auditor_submission, fourth_submission]\<rparr>)
           = take 3 (submissions \<lparr>submissions = [household_submission, peer_submission,
                                                    auditor_submission]\<rparr>)"
    by simp
  have g: \<open>get_client (world_answering (Some (u ''{"a":1}''))) = Inr (Groq (u ''gsk_live_key''))\<close>
    by (rule get_client_set) (rule world_answering_key)+
  have d: \<open>truthy (PyDict [(u ''a'', PyInt 1)])\<close>
    by simp
  have r: \<open>fst (run_collusion_check (world_answering (Some (u ''{"a":1}'')))
         \<lparr>submissions = [household_submission, peer_submission, auditor_submission, fourth_submission]\<rparr>)
     = Inr (PyDict [(u ''a'', PyInt 1)])\<close>
    unfolding collusion_answer [OF g world_answering_provider] object_example_parse
    using d by simp
  from submissions_beyond_third_ignored
         [OF t, of "\<lambda>c. False" \<open>world_answering (Some (u ''{"a":1}''))\<close>] r
  show ?thesis
    by blast
qed

end
